theory Spec2Isabelle
  imports Main
begin

section \<open>Data model\<close>

text \<open>
  \<^verbatim>\<open>interface Prompt { id: number; name: string; description: string; content: string; }\<close>
  The identifier is an integer assigned by the server. The field \<^verbatim>\<open>id\<close> is
  called \<open>ident\<close> here, since \<open>id\<close> is the identity function of HOL.
\<close>

record prompt =
  ident :: int
  name :: string
  description :: string
  content :: string

text \<open>The draft held by the form: \<^verbatim>\<open>{ name: "", description: "", content: "" }\<close>.\<close>

record form_data =
  fd_name :: string
  fd_description :: string
  fd_content :: string

definition empty_form :: form_data where
  "empty_form = \<lparr>fd_name = [], fd_description = [], fd_content = []\<rparr>"

text \<open>
  The \<^verbatim>\<open>useState\<close> cells of \<^verbatim>\<open>PromptsGrid\<close> in
  \<^verbatim>\<open>src/app/prompts/_components/prompts-grid.tsx\<close>. A cell of type
  \<^verbatim>\<open>number | null\<close> or \<^verbatim>\<open>string | null\<close> is an option.
\<close>

record grid_state_tsx =
  prompts :: "prompt list"
  copiedId :: "int option"
  isFormOpen :: bool
  formData :: form_data
  isSubmitting :: bool
  error :: "string option"
  editingId :: "int option"

text \<open>
  \<^verbatim>\<open>src/unnamed/part_000\<close> has the same cells and four more, for the hover
  effect and the delete confirmation.
\<close>

record grid_state = grid_state_tsx +
  hoveredDeleteId :: "int option"
  deleteDialogOpen :: bool
  promptToDelete :: "int option"
  isDeleting :: bool

text \<open>
  What a \<^verbatim>\<open>catch (err)\<close> receives. The handlers only ask
  \<^verbatim>\<open>err instanceof Error\<close> and, if so, read \<^verbatim>\<open>err.message\<close>.
\<close>

datatype thrown = ErrorInstance string | NonError

text \<open>How an awaited promise settles.\<close>

datatype 'a settled = Resolved 'a | Rejected thrown

text \<open>
  The server action a submit starts, with its argument:
  \<^verbatim>\<open>updatePrompt({ id: editingId, ...formData })\<close> or \<^verbatim>\<open>createPrompt(formData)\<close>.
\<close>

datatype save_call = UpdateCall int form_data | CreateCall form_data

datatype form_field = Name | Description | Content

section \<open>The form controller of \<^verbatim>\<open>src/unnamed/part_000\<close>\<close>

text \<open>\<^verbatim>\<open>setFormData((prevData) => ({ ...prevData, [name]: value }))\<close>\<close>

fun handleInputChange :: "form_field \<Rightarrow> string \<Rightarrow> form_data \<Rightarrow> form_data" where
  "handleInputChange Name v prevData = prevData\<lparr>fd_name := v\<rparr>"
| "handleInputChange Description v prevData = prevData\<lparr>fd_description := v\<rparr>"
| "handleInputChange Content v prevData = prevData\<lparr>fd_content := v\<rparr>"

definition handleEditClick :: "prompt \<Rightarrow> grid_state \<Rightarrow> grid_state" where
  "handleEditClick promptToEdit s =
     s\<lparr>editingId := Some (ident promptToEdit),
       formData := \<lparr>fd_name = name promptToEdit,
                     fd_description = description promptToEdit,
                     fd_content = content promptToEdit\<rparr>,
       error := None,
       isFormOpen := True\<rparr>"

definition resetAndCloseForm :: "grid_state \<Rightarrow> grid_state" where
  "resetAndCloseForm s =
     s\<lparr>isFormOpen := False,
       formData := empty_form,
       error := None,
       isSubmitting := False,
       editingId := None\<rparr>"

text \<open>
  \<^verbatim>\<open>handleSubmit\<close> is asynchronous. Up to its \<^verbatim>\<open>await\<close> it sets the
  in-flight flag, clears the error and starts the server action chosen by the
  \<^verbatim>\<open>editingId\<close> of the render it was created in.
\<close>

definition handleSubmit_begin :: "grid_state \<Rightarrow> grid_state \<times> save_call" where
  "handleSubmit_begin s =
     (s\<lparr>isSubmitting := True, error := None\<rparr>,
      case editingId s of
        Some eid \<Rightarrow> UpdateCall eid (formData s)
      | None \<Rightarrow> CreateCall (formData s))"

text \<open>
  The rest of \<^verbatim>\<open>handleSubmit\<close> runs when the server action settles, on the
  state of that moment: \<^verbatim>\<open>setPrompts\<close> is given an updater function, the other
  setters a value. The branch taken is the one of the call that was started.
\<close>

definition handleSubmit_settle :: "save_call \<Rightarrow> prompt settled \<Rightarrow> grid_state \<Rightarrow> grid_state" where
  "handleSubmit_settle c r s =
     (case r of
        Resolved p \<Rightarrow>
          resetAndCloseForm
            (case c of
               UpdateCall eid fd \<Rightarrow>
                 s\<lparr>prompts := map (\<lambda>q. if ident q = eid then p else q) (prompts s)\<rparr>
             | CreateCall fd \<Rightarrow>
                 s\<lparr>prompts := p # prompts s\<rparr>)
      | Rejected err \<Rightarrow>
          s\<lparr>error := Some (case err of
                              ErrorInstance message \<Rightarrow> message
                            | NonError \<Rightarrow> ''Failed to save prompt.''),
            isSubmitting := False\<rparr>)"

text \<open>One whole run of \<^verbatim>\<open>handleSubmit\<close>, nothing else happening before the call settles.\<close>

definition handleSubmit :: "prompt settled \<Rightarrow> grid_state \<Rightarrow> grid_state" where
  "handleSubmit r s = (case handleSubmit_begin s of (s1, c) \<Rightarrow> handleSubmit_settle c r s1)"

subsection \<open>What the rendered form dialog lets the user do\<close>

text \<open>
  \<^verbatim>\<open>onOpenChange={(open) => { if (!open) resetAndCloseForm(); else setIsFormOpen(open); }}\<close>
  (the parameter \<^verbatim>\<open>open\<close> is called \<open>opn\<close> here).
\<close>

definition onOpenChange :: "bool \<Rightarrow> grid_state \<Rightarrow> grid_state" where
  "onOpenChange opn s = (if \<not> opn then resetAndCloseForm s else s\<lparr>isFormOpen := opn\<rparr>)"

text \<open>
  The Create button:
  \<^verbatim>\<open>onClick={() => { setEditingId(null); resetAndCloseForm(); setIsFormOpen(true); }}\<close>
\<close>

definition createButton_onClick :: "grid_state \<Rightarrow> grid_state" where
  "createButton_onClick s = (resetAndCloseForm (s\<lparr>editingId := None\<rparr>))\<lparr>isFormOpen := True\<rparr>"

text \<open>
  \<^verbatim>\<open>onInteractOutside={(e) => { if(isSubmitting) e.preventDefault();}}\<close>:
  the result says whether the default action of the event was prevented.
\<close>

definition onInteractOutside :: "grid_state \<Rightarrow> bool" where
  "onInteractOutside s = isSubmitting s"

text \<open>
  \<^verbatim>\<open><Button type="button" variant="outline" onClick={resetAndCloseForm} disabled={isSubmitting}>Cancel</Button>\<close>
  and \<^verbatim>\<open><Button type="submit" disabled={isSubmitting}>\<close>: the value of the
  \<^verbatim>\<open>disabled\<close> attribute of each button.
\<close>

definition cancelButton_disabled :: "grid_state \<Rightarrow> bool" where
  "cancelButton_disabled s = isSubmitting s"

definition submitButton_disabled :: "grid_state \<Rightarrow> bool" where
  "submitButton_disabled s = isSubmitting s"

text \<open>The three fields of the form carry \<^verbatim>\<open>required\<close>.\<close>

definition required_filled :: "form_data \<Rightarrow> bool" where
  "required_filled fd = (fd_name fd \<noteq> [] \<and> fd_description fd \<noteq> [] \<and> fd_content fd \<noteq> [])"

text \<open>
  Modelled from the spec: the dialog component (\<^verbatim>\<open>@/components/ui/dialog\<close>) is
  outside the two component files. Its content exists only while the dialog is open,
  and an interaction outside the content dismisses the dialog through
  \<^verbatim>\<open>onOpenChange(false)\<close> unless the handler prevented the default action
  ("while a submission is in flight, outside-click dismissal is suppressed").
\<close>

definition interactOutside :: "grid_state \<Rightarrow> grid_state" where
  "interactOutside s =
     (if \<not> isFormOpen s then s
      else if onInteractOutside s then s
      else onOpenChange False s)"

text \<open>
  Modelled from the spec: the button component (\<^verbatim>\<open>@/components/ui/button\<close>) is
  outside the two component files. A disabled button does not react to a click
  ("canceling the form while a submission is in flight has no effect (guard holds)");
  an enabled Cancel button calls its \<^verbatim>\<open>onClick\<close>.
\<close>

definition cancelButton_click :: "grid_state \<Rightarrow> grid_state" where
  "cancelButton_click s =
     (if \<not> isFormOpen s then s
      else if cancelButton_disabled s then s
      else resetAndCloseForm s)"

text \<open>
  Modelled from the spec: the button component (\<^verbatim>\<open>@/components/ui/button\<close>) is
  outside the two component files. A disabled submit button does not submit ("the
  in-flight guard prevents duplicate submission from the same control"); an enabled
  one submits the form, which calls \<^verbatim>\<open>onSubmit\<close> once the required fields are
  filled in ("non-empty, enforced by required-field UI"). The second component is the
  server action started by the click, if any.
\<close>

definition submitButton_click :: "grid_state \<Rightarrow> grid_state \<times> save_call option" where
  "submitButton_click s =
     (if \<not> isFormOpen s then (s, None)
      else if submitButton_disabled s then (s, None)
      else if \<not> required_filled (formData s) then (s, None)
      else (case handleSubmit_begin s of (s1, c) \<Rightarrow> (s1, Some c)))"

section \<open>The delete confirmation of \<^verbatim>\<open>src/unnamed/part_000\<close>\<close>

definition handleDeleteClick :: "int \<Rightarrow> grid_state \<Rightarrow> grid_state" where
  "handleDeleteClick promptId s = s\<lparr>promptToDelete := Some promptId, deleteDialogOpen := True\<rparr>"

text \<open>
  \<^verbatim>\<open>handleDeleteConfirm\<close> up to its \<^verbatim>\<open>await\<close>: it returns at once when
  there is no pending target, and otherwise sets the in-flight flag and starts
  \<^verbatim>\<open>deletePrompt(promptToDelete)\<close>. The second component is the argument of
  the server action started, if any.
\<close>

definition handleDeleteConfirm_begin :: "grid_state \<Rightarrow> grid_state \<times> int option" where
  "handleDeleteConfirm_begin s =
     (case promptToDelete s of
        None \<Rightarrow> (s, None)
      | Some target \<Rightarrow> (s\<lparr>isDeleting := True\<rparr>, Some target))"

text \<open>
  The rest, once \<^verbatim>\<open>deletePrompt\<close> has settled: the \<^verbatim>\<open>try\<close> body or the
  \<^verbatim>\<open>catch\<close>, which only logs, and then the \<^verbatim>\<open>finally\<close> block.
\<close>

definition handleDeleteConfirm_settle :: "int \<Rightarrow> unit settled \<Rightarrow> grid_state \<Rightarrow> grid_state" where
  "handleDeleteConfirm_settle target r s =
     (let s1 = (case r of
                  Resolved u \<Rightarrow> s\<lparr>prompts := filter (\<lambda>p. ident p \<noteq> target) (prompts s)\<rparr>
                | Rejected err \<Rightarrow> s)
      in s1\<lparr>isDeleting := False, deleteDialogOpen := False, promptToDelete := None\<rparr>)"

text \<open>One whole run of \<^verbatim>\<open>handleDeleteConfirm\<close>, nothing else happening before the call settles.\<close>

definition handleDeleteConfirm :: "unit settled \<Rightarrow> grid_state \<Rightarrow> grid_state" where
  "handleDeleteConfirm r s =
     (case handleDeleteConfirm_begin s of
        (s1, None) \<Rightarrow> s1
      | (s1, Some target) \<Rightarrow> handleDeleteConfirm_settle target r s1)"

section \<open>Copying to the clipboard\<close>

text \<open>
  The two notifications \<^verbatim>\<open>handleCopyClick\<close> sends through \<^verbatim>\<open>toast\<close>: the
  success one (with \<^verbatim>\<open>duration: 2000\<close>) and the \<^verbatim>\<open>variant: "destructive"\<close> one.
\<close>

datatype toast = Toast_copied | Toast_error

text \<open>
  What the browser offers to a copy: \<^verbatim>\<open>navigator.clipboard\<close> is missing, and then
  \<^verbatim>\<open>document.execCommand('copy')\<close> returns a boolean or throws; or it is there,
  and then the promise of \<^verbatim>\<open>writeText\<close> resolves or rejects.
\<close>

datatype exec_result = ExecReturns bool | ExecThrows thrown

datatype clipboard_api = ClipboardMissing exec_result | ClipboardPresent "unit settled"

text \<open>
  The part of the browser the handlers act on: the time in milliseconds, the due times
  of the pending \<^verbatim>\<open>setTimeout(() => setCopiedId(null), 2000)\<close> callbacks (no
  \<^verbatim>\<open>clearTimeout\<close> occurs in either file, so a pending callback is never
  withdrawn), the notifications shown, and the children of \<^verbatim>\<open>document.body\<close>,
  each an element identity with its text; \<open>next_node\<close> is the identity the next
  \<^verbatim>\<open>document.createElement\<close> hands out.
\<close>

record browser =
  clock :: nat
  timers :: "nat list"
  toasts :: "toast list"
  body :: "(nat \<times> string) list"
  next_node :: nat

text \<open>Identities handed out so far are below \<open>next_node\<close>.\<close>

definition body_wf :: "browser \<Rightarrow> bool" where
  "body_wf b = list_all (\<lambda>node. fst node < next_node b) (body b)"

text \<open>\<^verbatim>\<open>removeChild\<close> throws (\<open>None\<close>) when the node is not a child.\<close>

definition removeChild :: "nat \<Rightarrow> (nat \<times> string) list \<Rightarrow> (nat \<times> string) list option" where
  "removeChild n kids =
     (if n \<in> fst ` set kids then Some (filter (\<lambda>node. fst node \<noteq> n) kids) else None)"

text \<open>
  \<^verbatim>\<open>handleCopyClick\<close> of \<^verbatim>\<open>src/unnamed/part_000\<close>. Without
  \<^verbatim>\<open>navigator.clipboard\<close> the handler runs to its end at once. With it, nothing
  is changed before the \<^verbatim>\<open>await\<close>, so the whole effect happens when
  \<^verbatim>\<open>writeText\<close> settles, on the state and the clock of that moment. The
  parameter \<^verbatim>\<open>content\<close> is called \<open>text\<close> here, \<open>content\<close> being a field of
  \<open>prompt\<close>.
\<close>

definition handleCopyClick ::
  "clipboard_api \<Rightarrow> string \<Rightarrow> int \<Rightarrow> grid_state \<times> browser \<Rightarrow> grid_state \<times> browser" where
  "handleCopyClick api text promptId sb =
     (case sb of (s, b) \<Rightarrow>
        (case api of
           ClipboardMissing ex \<Rightarrow>
             (let textArea = next_node b;
                  b1 = b\<lparr>body := body b @ [(textArea, text)], next_node := Suc (next_node b)\<rparr>;
                  (s2, b2) =
                    (case ex of
                       ExecReturns successful \<Rightarrow>
                         (if successful
                          then (s\<lparr>copiedId := Some promptId\<rparr>, b1\<lparr>toasts := toasts b1 @ [Toast_copied]\<rparr>)
                          else (s, b1\<lparr>toasts := toasts b1 @ [Toast_error]\<rparr>))
                     | ExecThrows err \<Rightarrow> (s, b1\<lparr>toasts := toasts b1 @ [Toast_error]\<rparr>))
              in (case removeChild textArea (body b2) of
                    Some kids \<Rightarrow>
                      (s2, b2\<lparr>body := kids, timers := timers b2 @ [clock b2 + 2000]\<rparr>)
                  | None \<Rightarrow> (s2, b2\<lparr>toasts := toasts b2 @ [Toast_error]\<rparr>)))
         | ClipboardPresent (Resolved u) \<Rightarrow>
             (s\<lparr>copiedId := Some promptId\<rparr>,
              b\<lparr>toasts := toasts b @ [Toast_copied], timers := timers b @ [clock b + 2000]\<rparr>)
         | ClipboardPresent (Rejected err) \<Rightarrow>
             (s, b\<lparr>toasts := toasts b @ [Toast_error]\<rparr>)))"

text \<open>
  Time passes by \<open>dt\<close> milliseconds: every pending callback that is due by then runs
  (each is \<^verbatim>\<open>() => setCopiedId(null)\<close>) and leaves the list.
\<close>

definition elapse :: "nat \<Rightarrow> 'a grid_state_tsx_scheme \<times> browser \<Rightarrow> 'a grid_state_tsx_scheme \<times> browser" where
  "elapse dt sb =
     (case sb of (s, b) \<Rightarrow>
        (let now = clock b + dt in
           (if list_ex (\<lambda>due. due \<le> now) (timers b) then s\<lparr>copiedId := None\<rparr> else s,
            b\<lparr>clock := now, timers := filter (\<lambda>due. \<not> due \<le> now) (timers b)\<rparr>)))"

section \<open>The component of \<^verbatim>\<open>src/app/prompts/_components/prompts-grid.tsx\<close>\<close>

text \<open>
  The handlers and the attributes of the form are written again from this file, on
  its own state; each carries the name it has in the file, with the suffix \<open>_tsx\<close>.
\<close>

fun handleInputChange_tsx :: "form_field \<Rightarrow> string \<Rightarrow> form_data \<Rightarrow> form_data" where
  "handleInputChange_tsx Name v prevData = prevData\<lparr>fd_name := v\<rparr>"
| "handleInputChange_tsx Description v prevData = prevData\<lparr>fd_description := v\<rparr>"
| "handleInputChange_tsx Content v prevData = prevData\<lparr>fd_content := v\<rparr>"

definition handleEditClick_tsx :: "prompt \<Rightarrow> grid_state_tsx \<Rightarrow> grid_state_tsx" where
  "handleEditClick_tsx promptToEdit s =
     s\<lparr>editingId := Some (ident promptToEdit),
       formData := \<lparr>fd_name = name promptToEdit,
                     fd_description = description promptToEdit,
                     fd_content = content promptToEdit\<rparr>,
       error := None,
       isFormOpen := True\<rparr>"

definition resetAndCloseForm_tsx :: "grid_state_tsx \<Rightarrow> grid_state_tsx" where
  "resetAndCloseForm_tsx s =
     s\<lparr>isFormOpen := False,
       formData := empty_form,
       error := None,
       isSubmitting := False,
       editingId := None\<rparr>"

definition handleSubmit_begin_tsx :: "grid_state_tsx \<Rightarrow> grid_state_tsx \<times> save_call" where
  "handleSubmit_begin_tsx s =
     (s\<lparr>isSubmitting := True, error := None\<rparr>,
      case editingId s of
        Some eid \<Rightarrow> UpdateCall eid (formData s)
      | None \<Rightarrow> CreateCall (formData s))"

definition handleSubmit_settle_tsx ::
  "save_call \<Rightarrow> prompt settled \<Rightarrow> grid_state_tsx \<Rightarrow> grid_state_tsx" where
  "handleSubmit_settle_tsx c r s =
     (case r of
        Resolved p \<Rightarrow>
          resetAndCloseForm_tsx
            (case c of
               UpdateCall eid fd \<Rightarrow>
                 s\<lparr>prompts := map (\<lambda>q. if ident q = eid then p else q) (prompts s)\<rparr>
             | CreateCall fd \<Rightarrow>
                 s\<lparr>prompts := p # prompts s\<rparr>)
      | Rejected err \<Rightarrow>
          s\<lparr>error := Some (case err of
                              ErrorInstance message \<Rightarrow> message
                            | NonError \<Rightarrow> ''Failed to save prompt.''),
            isSubmitting := False\<rparr>)"

definition handleSubmit_tsx :: "prompt settled \<Rightarrow> grid_state_tsx \<Rightarrow> grid_state_tsx" where
  "handleSubmit_tsx r s =
     (case handleSubmit_begin_tsx s of (s1, c) \<Rightarrow> handleSubmit_settle_tsx c r s1)"

definition onOpenChange_tsx :: "bool \<Rightarrow> grid_state_tsx \<Rightarrow> grid_state_tsx" where
  "onOpenChange_tsx opn s = (if \<not> opn then resetAndCloseForm_tsx s else s\<lparr>isFormOpen := opn\<rparr>)"

definition createButton_onClick_tsx :: "grid_state_tsx \<Rightarrow> grid_state_tsx" where
  "createButton_onClick_tsx s =
     (resetAndCloseForm_tsx (s\<lparr>editingId := None\<rparr>))\<lparr>isFormOpen := True\<rparr>"

definition onInteractOutside_tsx :: "grid_state_tsx \<Rightarrow> bool" where
  "onInteractOutside_tsx s = isSubmitting s"

definition cancelButton_disabled_tsx :: "grid_state_tsx \<Rightarrow> bool" where
  "cancelButton_disabled_tsx s = isSubmitting s"

definition submitButton_disabled_tsx :: "grid_state_tsx \<Rightarrow> bool" where
  "submitButton_disabled_tsx s = isSubmitting s"

text \<open>
  The Delete button only logs: \<^verbatim>\<open>onClick={() => console.log('Delete', prompt.id)}\<close>.
\<close>

definition deleteButton_onClick_tsx :: "int \<Rightarrow> grid_state_tsx \<Rightarrow> grid_state_tsx" where
  "deleteButton_onClick_tsx promptId s = s"

text \<open>
  The Copy button has its handler inline:
  \<^verbatim>\<open>navigator.clipboard.writeText(prompt.content); setCopiedId(prompt.id);
  setTimeout(() => setCopiedId(null), 2000);\<close>
  The promise is not awaited, so the marker is set however it settles; without
  \<^verbatim>\<open>navigator.clipboard\<close> the first statement throws and nothing is set.
\<close>

definition copyButton_onClick_tsx ::
  "clipboard_api \<Rightarrow> prompt \<Rightarrow> grid_state_tsx \<times> browser \<Rightarrow> grid_state_tsx \<times> browser" where
  "copyButton_onClick_tsx api p sb =
     (case sb of (s, b) \<Rightarrow>
        (case api of
           ClipboardMissing ex \<Rightarrow> (s, b)
         | ClipboardPresent r \<Rightarrow>
             (s\<lparr>copiedId := Some (ident p)\<rparr>, b\<lparr>timers := timers b @ [clock b + 2000]\<rparr>)))"

section \<open>Example values\<close>

definition p1 :: prompt where
  "p1 = \<lparr>ident = 1, name = ''A'', description = ''d'', content = ''c''\<rparr>"

definition p3 :: prompt where
  "p3 = \<lparr>ident = 3, name = ''A'', description = ''d'', content = ''hello''\<rparr>"

definition p3' :: prompt where
  "p3' = \<lparr>ident = 3, name = ''B'', description = ''d'', content = ''hello''\<rparr>"

definition p5 :: prompt where
  "p5 = \<lparr>ident = 5, name = ''E'', description = ''e'', content = ''x''\<rparr>"

definition p7 :: prompt where
  "p7 = \<lparr>ident = 7, name = ''A'', description = ''d'', content = ''c''\<rparr>"

text \<open>The component just mounted on three prompts.\<close>

definition st0 :: grid_state where
  "st0 = \<lparr>prompts = [p1, p3, p5], copiedId = None, isFormOpen = False,
          formData = empty_form, isSubmitting = False, error = None, editingId = None,
          hoveredDeleteId = None, deleteDialogOpen = False, promptToDelete = None,
          isDeleting = False\<rparr>"

definition br0 :: browser where
  "br0 = \<lparr>clock = 0, timers = [], toasts = [], body = [(0, ''root'')], next_node = 1\<rparr>"

section \<open>Submitting the form\<close>

text \<open>
  Whatever happened between the start of the call and its settlement, a resolved update
  maps over the collection of that moment, and a resolved create conses onto it.
\<close>

lemma handleSubmit_settle_update:
  "handleSubmit_settle (UpdateCall eid fd) (Resolved p) s =
     resetAndCloseForm (s\<lparr>prompts := map (\<lambda>q. if ident q = eid then p else q) (prompts s)\<rparr>)"
  by (simp add: handleSubmit_settle_def)

lemma handleSubmit_settle_create:
  "handleSubmit_settle (CreateCall fd) (Resolved p) s =
     resetAndCloseForm (s\<lparr>prompts := p # prompts s\<rparr>)"
  by (simp add: handleSubmit_settle_def)

lemma handleSubmit_begin_sets_guard: "isSubmitting (fst (handleSubmit_begin s))"
  by (simp add: handleSubmit_begin_def)

text \<open>
  C1. In edit mode (\<open>editingId s = Some eid\<close>) a submit starts
  \<^verbatim>\<open>updatePrompt\<close> with that id and the draft. When it resolves with the record
  \<open>p\<close>, the collection keeps its length; at every position the element is \<open>p\<close> if the
  old element had the id \<open>eid\<close>, and the old element otherwise, so the order is kept.
  The form is closed, and the draft is empty, the error absent, the in-flight flag
  down and the editing target absent.
\<close>

theorem submit_edit_replaces_by_id:
  "editingId s = Some eid \<Longrightarrow>
   (let s' = handleSubmit (Resolved p) s in
      snd (handleSubmit_begin s) = UpdateCall eid (formData s) \<and>
      length (prompts s') = length (prompts s) \<and>
      (\<forall>i < length (prompts s).
         prompts s' ! i = (if ident (prompts s ! i) = eid then p else prompts s ! i)) \<and>
      \<not> isFormOpen s' \<and> formData s' = empty_form \<and> error s' = None \<and>
      \<not> isSubmitting s' \<and> editingId s' = None)"
  by (simp add: handleSubmit_def handleSubmit_begin_def handleSubmit_settle_def
      resetAndCloseForm_def)

text \<open>
  Editing the prompt 3 of the collection 1, 3, 5 and getting back the record with the
  name changed gives the collection 1, 3 (changed), 5.
\<close>

theorem submit_edit_replaces_by_id_witness:
  "editingId (handleEditClick p3 st0) = Some 3 \<and>
   prompts (handleSubmit (Resolved p3') (handleEditClick p3 st0)) = [p1, p3', p5] \<and>
   \<not> isFormOpen (handleSubmit (Resolved p3') (handleEditClick p3 st0))"
proof -
  have h: "editingId (handleEditClick p3 st0) = Some 3"
    by (simp add: handleEditClick_def p3_def)
  have l: "prompts (handleEditClick p3 st0) = [p1, p3, p5]"
    by (simp add: handleEditClick_def st0_def)
  from submit_edit_replaces_by_id [OF h, of p3']
  have "length (prompts (handleSubmit (Resolved p3') (handleEditClick p3 st0))) = 3"
    and "\<forall>i < 3. prompts (handleSubmit (Resolved p3') (handleEditClick p3 st0)) ! i =
           (if ident ([p1, p3, p5] ! i) = 3 then p3' else [p1, p3, p5] ! i)"
    and c: "\<not> isFormOpen (handleSubmit (Resolved p3') (handleEditClick p3 st0))"
    by (simp_all add: Let_def l)
  then have "prompts (handleSubmit (Resolved p3') (handleEditClick p3 st0)) = [p1, p3', p5]"
    by (simp add: list_eq_iff_nth_eq All_less_Suc numeral_3_eq_3 p1_def p3_def p5_def nth_Cons')
  with h c show ?thesis by simp
qed

text \<open>
  C2. In create mode (\<open>editingId s = None\<close>) a submit starts
  \<^verbatim>\<open>createPrompt\<close> with the draft. When it resolves with the record \<open>p\<close>, the
  collection is \<open>p\<close> followed by the old collection, and the form is closed with the
  draft empty, the error absent, the in-flight flag down and the editing target
  absent. The handler of \<^verbatim>\<open>prompts-grid.tsx\<close> does the same.
\<close>

theorem submit_create_prepends:
  "editingId s = None \<Longrightarrow> editingId t = None \<Longrightarrow>
   (let s' = handleSubmit (Resolved p) s; t' = handleSubmit_tsx (Resolved p) t in
      snd (handleSubmit_begin s) = CreateCall (formData s) \<and>
      prompts s' = p # prompts s \<and>
      \<not> isFormOpen s' \<and> formData s' = empty_form \<and> error s' = None \<and>
      \<not> isSubmitting s' \<and> editingId s' = None \<and>
      snd (handleSubmit_begin_tsx t) = CreateCall (formData t) \<and>
      prompts t' = p # prompts t \<and>
      \<not> isFormOpen t' \<and> formData t' = empty_form \<and> error t' = None \<and>
      \<not> isSubmitting t' \<and> editingId t' = None)"
  by (simp add: handleSubmit_def handleSubmit_begin_def handleSubmit_settle_def
      resetAndCloseForm_def handleSubmit_tsx_def handleSubmit_begin_tsx_def
      handleSubmit_settle_tsx_def resetAndCloseForm_tsx_def)

theorem submit_create_prepends_witness:
  "editingId (createButton_onClick st0) = None \<and>
   editingId (createButton_onClick_tsx (grid_state_tsx.truncate st0)) = None \<and>
   prompts (handleSubmit (Resolved p7) (createButton_onClick st0)) = [p7, p1, p3, p5] \<and>
   prompts (handleSubmit_tsx (Resolved p7) (createButton_onClick_tsx (grid_state_tsx.truncate st0)))
     = [p7, p1, p3, p5] \<and>
   \<not> isFormOpen (handleSubmit (Resolved p7) (createButton_onClick st0))"
proof -
  have h: "editingId (createButton_onClick st0) = None"
    by (simp add: createButton_onClick_def resetAndCloseForm_def)
  have k: "editingId (createButton_onClick_tsx (grid_state_tsx.truncate st0)) = None"
    by (simp add: createButton_onClick_tsx_def resetAndCloseForm_tsx_def)
  have l: "prompts (createButton_onClick st0) = [p1, p3, p5]"
    by (simp add: createButton_onClick_def resetAndCloseForm_def st0_def)
  have m: "prompts (createButton_onClick_tsx (grid_state_tsx.truncate st0)) = [p1, p3, p5]"
    by (simp add: createButton_onClick_tsx_def resetAndCloseForm_tsx_def st0_def
        grid_state_tsx.truncate_def)
  show ?thesis
    using h k submit_create_prepends [OF h k, of p7] by (simp add: Let_def l m)
qed

text \<open>
  C3. When the server action of a submit rejects, in create or in edit mode, the
  error field is the message of the failure if the failure is an \<^verbatim>\<open>Error\<close>, and
  the text \<^verbatim>\<open>Failed to save prompt.\<close> if it is anything else; the form is as
  open as it was, the in-flight flag is down, and the collection, the draft and the
  editing target are untouched.
\<close>

theorem submit_failure_keeps_form:
  "error (handleSubmit (Rejected (ErrorInstance message)) s) = Some message \<and>
   error (handleSubmit (Rejected NonError) s) = Some ''Failed to save prompt.'' \<and>
   isFormOpen (handleSubmit (Rejected err) s) = isFormOpen s \<and>
   \<not> isSubmitting (handleSubmit (Rejected err) s) \<and>
   prompts (handleSubmit (Rejected err) s) = prompts s \<and>
   formData (handleSubmit (Rejected err) s) = formData s \<and>
   editingId (handleSubmit (Rejected err) s) = editingId s"
  by (simp add: handleSubmit_def handleSubmit_begin_def handleSubmit_settle_def)

text \<open>
  C5. \<^verbatim>\<open>handleSubmit\<close> has no check of its own: the guard against re-entry is
  the \<^verbatim>\<open>disabled={isSubmitting}\<close> of the submit button. While a submission is in
  flight the button is disabled, and a click on it starts no server action and leaves
  the state as it is. In any state, of two clicks in a row with no settlement between
  them, the second starts no server action.
\<close>

theorem submit_guarded_while_in_flight:
  "(isSubmitting s \<longrightarrow> submitButton_disabled s \<and> submitButton_click s = (s, None)) \<and>
   snd (submitButton_click (fst (submitButton_click s))) = None"
proof -
  have a: "isSubmitting s \<longrightarrow> submitButton_disabled s \<and> submitButton_click s = (s, None)"
    by (simp add: submitButton_click_def submitButton_disabled_def)
  have b: "snd (submitButton_click (fst (submitButton_click s))) = None"
  proof (cases "snd (submitButton_click s)")
    case None
    then have "fst (submitButton_click s) = s"
      by (auto simp: submitButton_click_def split: if_splits prod.splits)
    with None show ?thesis by simp
  next
    case (Some c)
    then have "fst (submitButton_click s) = fst (handleSubmit_begin s)"
      by (auto simp: submitButton_click_def split: if_splits prod.splits)
    then show ?thesis
      by (simp add: submitButton_click_def submitButton_disabled_def
          handleSubmit_begin_sets_guard)
  qed
  from a b show ?thesis by simp
qed

text \<open>
  A first click on the open edit form of prompt 3 starts \<^verbatim>\<open>updatePrompt\<close> and
  sets the flag; a second click does nothing.
\<close>

theorem submit_guarded_while_in_flight_witness:
  "snd (submitButton_click (handleEditClick p3 st0))
     = Some (UpdateCall 3 (formData (handleEditClick p3 st0))) \<and>
   isSubmitting (fst (submitButton_click (handleEditClick p3 st0))) \<and>
   submitButton_click (fst (submitButton_click (handleEditClick p3 st0)))
     = (fst (submitButton_click (handleEditClick p3 st0)), None)"
proof -
  have e: "isFormOpen (handleEditClick p3 st0)" "\<not> isSubmitting (handleEditClick p3 st0)"
    "required_filled (formData (handleEditClick p3 st0))"
    "editingId (handleEditClick p3 st0) = Some 3"
    by (simp_all add: handleEditClick_def st0_def p3_def required_filled_def)
  have c: "submitButton_click (handleEditClick p3 st0) =
     (case handleSubmit_begin (handleEditClick p3 st0) of (s1, c) \<Rightarrow> (s1, Some c))"
    by (simp add: submitButton_click_def submitButton_disabled_def e)
  have k: "snd (submitButton_click (handleEditClick p3 st0))
     = Some (UpdateCall 3 (formData (handleEditClick p3 st0)))"
    unfolding c by (simp add: handleSubmit_begin_def e)
  have h: "isSubmitting (fst (submitButton_click (handleEditClick p3 st0)))"
    unfolding c by (simp add: handleSubmit_begin_def)
  show ?thesis
    using h k submit_guarded_while_in_flight [of "fst (submitButton_click (handleEditClick p3 st0))"]
    by simp
qed

section \<open>Dismissing the form\<close>

text \<open>When no submission is in flight, Cancel and an outside click both reset and close the open form.\<close>

lemma idle_cancel_resets:
  "isFormOpen s \<Longrightarrow> \<not> isSubmitting s \<Longrightarrow>
     cancelButton_click s = resetAndCloseForm s \<and> interactOutside s = resetAndCloseForm s"
  by (simp add: cancelButton_click_def cancelButton_disabled_def interactOutside_def
      onInteractOutside_def onOpenChange_def)

text \<open>
  C6 says that the Cancel button stays usable while a submission is in flight. It does
  not: right after the submit of an edit form the form is open, the submission is in
  flight, and the Cancel button is disabled.
\<close>

theorem cancel_button_usable_counterexample:
  "isFormOpen (fst (handleSubmit_begin (handleEditClick p3 st0))) \<and>
   isSubmitting (fst (handleSubmit_begin (handleEditClick p3 st0))) \<and>
   cancelButton_disabled (fst (handleSubmit_begin (handleEditClick p3 st0)))"
  by (simp add: handleSubmit_begin_def handleEditClick_def cancelButton_disabled_def)

text \<open>
  C6, amended. While a submission is in flight, the handler of an outside interaction
  prevents the dismissal, so the interaction leaves the state as it is; and the
  Cancel button is disabled, so a click on it leaves the state as it is.
\<close>

theorem in_flight_form_dismissal_blocked:
  "isSubmitting s \<Longrightarrow>
     onInteractOutside s \<and> interactOutside s = s \<and>
     cancelButton_disabled s \<and> cancelButton_click s = s"
  by (simp add: onInteractOutside_def interactOutside_def cancelButton_disabled_def
      cancelButton_click_def)

theorem in_flight_form_dismissal_blocked_witness:
  "isSubmitting (fst (handleSubmit_begin (handleEditClick p3 st0))) \<and>
   interactOutside (fst (handleSubmit_begin (handleEditClick p3 st0)))
     = fst (handleSubmit_begin (handleEditClick p3 st0)) \<and>
   cancelButton_click (fst (handleSubmit_begin (handleEditClick p3 st0)))
     = fst (handleSubmit_begin (handleEditClick p3 st0))"
proof -
  have h: "isSubmitting (fst (handleSubmit_begin (handleEditClick p3 st0)))"
    by (simp add: handleSubmit_begin_def)
  show ?thesis using h in_flight_form_dismissal_blocked [OF h] by simp
qed

section \<open>Confirming a deletion\<close>

text \<open>
  C4. With a pending target, confirming starts \<^verbatim>\<open>deletePrompt\<close> on it. If the
  call resolves, the collection is the old one without the records of that id, the
  others in their order; if it rejects, the collection is the old one. However the
  call settles, the in-flight flag is down, the confirmation is closed and the pending
  target is absent.
\<close>

theorem delete_confirm_outcomes:
  "promptToDelete s = Some target \<Longrightarrow>
     snd (handleDeleteConfirm_begin s) = Some target \<and>
     prompts (handleDeleteConfirm (Resolved ()) s) = filter (\<lambda>p. ident p \<noteq> target) (prompts s) \<and>
     prompts (handleDeleteConfirm (Rejected err) s) = prompts s \<and>
     \<not> isDeleting (handleDeleteConfirm r s) \<and>
     \<not> deleteDialogOpen (handleDeleteConfirm r s) \<and>
     promptToDelete (handleDeleteConfirm r s) = None"
  by (cases r)
    (simp_all add: handleDeleteConfirm_def handleDeleteConfirm_begin_def
      handleDeleteConfirm_settle_def)

theorem delete_confirm_outcomes_witness:
  "promptToDelete (handleDeleteClick 5 st0) = Some 5 \<and>
   prompts (handleDeleteConfirm (Resolved ()) (handleDeleteClick 5 st0)) = [p1, p3] \<and>
   prompts (handleDeleteConfirm (Rejected NonError) (handleDeleteClick 5 st0)) = [p1, p3, p5] \<and>
   \<not> deleteDialogOpen (handleDeleteConfirm (Resolved ()) (handleDeleteClick 5 st0)) \<and>
   promptToDelete (handleDeleteConfirm (Resolved ()) (handleDeleteClick 5 st0)) = None"
proof -
  have h: "promptToDelete (handleDeleteClick 5 st0) = Some 5"
    by (simp add: handleDeleteClick_def)
  have l: "prompts (handleDeleteClick 5 st0) = [p1, p3, p5]"
    by (simp add: handleDeleteClick_def st0_def)
  show ?thesis
    using h delete_confirm_outcomes [OF h, of NonError "Resolved ()"]
    by (simp add: l p1_def p3_def p5_def)
qed

text \<open>
  C10. Without a pending target, confirming returns at once: no server action is
  started and the state is the one before, so the collection, the dialog flag and the
  in-flight flag are as they were.
\<close>

theorem delete_confirm_without_target:
  "promptToDelete s = None \<Longrightarrow>
     handleDeleteConfirm_begin s = (s, None) \<and> handleDeleteConfirm r s = s"
  by (simp add: handleDeleteConfirm_def handleDeleteConfirm_begin_def)

theorem delete_confirm_without_target_witness:
  "promptToDelete st0 = None \<and>
   handleDeleteConfirm_begin st0 = (st0, None) \<and> handleDeleteConfirm (Resolved ()) st0 = st0"
proof -
  have h: "promptToDelete st0 = None" by (simp add: st0_def)
  show ?thesis using h delete_confirm_without_target [OF h, of "Resolved ()"] by simp
qed

section \<open>Copying\<close>

lemma handleCopyClick_primary_ok:
  "handleCopyClick (ClipboardPresent (Resolved u)) text promptId (s, b) =
     (s\<lparr>copiedId := Some promptId\<rparr>,
      b\<lparr>toasts := toasts b @ [Toast_copied], timers := timers b @ [clock b + 2000]\<rparr>)"
  by (simp add: handleCopyClick_def)

lemma elapse_fires:
  "list_ex (\<lambda>due. due \<le> clock b + dt) (timers b) \<Longrightarrow> copiedId (fst (elapse dt (s, b))) = None"
  by (simp add: elapse_def Let_def)

lemma elapse_idle:
  "\<not> list_ex (\<lambda>due. due \<le> clock b + dt) (timers b) \<Longrightarrow> fst (elapse dt (s, b)) = s"
  by (simp add: elapse_def Let_def)

text \<open>
  C7 says that after a second copy, made on another record before the reset of the
  first is due, the marker of the new record is cleared after the fixed delay. It is
  cleared sooner: copy prompt 3 at time 0 and prompt 5 at time 1000; the marker is
  then on 5, and at time 2000, one second after the second copy, the reset scheduled
  by the first copy has run and the marker is absent.
\<close>

theorem second_copy_marker_cleared_early_counterexample:
  "copiedId (fst (handleCopyClick (ClipboardPresent (Resolved ())) ''x'' 5
      (elapse 1000 (handleCopyClick (ClipboardPresent (Resolved ())) ''hello'' 3 (st0, br0)))))
     = Some 5 \<and>
   clock (snd (elapse 1000 (handleCopyClick (ClipboardPresent (Resolved ())) ''x'' 5
      (elapse 1000 (handleCopyClick (ClipboardPresent (Resolved ())) ''hello'' 3 (st0, br0))))))
     = 2000 \<and>
   copiedId (fst (elapse 1000 (handleCopyClick (ClipboardPresent (Resolved ())) ''x'' 5
      (elapse 1000 (handleCopyClick (ClipboardPresent (Resolved ())) ''hello'' 3 (st0, br0))))))
     = None"
  by (simp add: handleCopyClick_def elapse_def Let_def br0_def)

text \<open>
  C7, amended. A copy whose clipboard write resolves sets the marker to the record,
  notifies once and schedules a reset 2000 ms later; the inline handler of
  \<^verbatim>\<open>prompts-grid.tsx\<close> sets the marker and schedules the same reset. When a
  second copy on another record follows \<open>d < 2000\<close> ms after the first, the marker
  is on the new record and no longer on the old one, and both resets are pending.
  The marker of the new record is absent as soon as 2000 ms have passed since the
  first copy (\<open>2000 \<le> d + e\<close>), hence also 2000 ms after the second; with no other
  reset pending it is still there at any earlier time.
\<close>

theorem copy_marker_and_resets:
  assumes "d < 2000"
  shows "(let ok = ClipboardPresent (Resolved ());
           sb1 = handleCopyClick ok text1 pid1 (s, b);
           sb2 = handleCopyClick ok text2 pid2 (elapse d sb1)
       in copiedId (fst sb1) = Some pid1 \<and>
          toasts (snd sb1) = toasts b @ [Toast_copied] \<and>
          timers (snd sb1) = timers b @ [clock b + 2000] \<and>
          copyButton_onClick_tsx (ClipboardPresent r) q (t, b) =
            (t\<lparr>copiedId := Some (ident q)\<rparr>, b\<lparr>timers := timers b @ [clock b + 2000]\<rparr>) \<and>
          copiedId (fst sb2) = Some pid2 \<and>
          (pid1 \<noteq> pid2 \<longrightarrow> copiedId (fst sb2) \<noteq> Some pid1) \<and>
          clock (snd sb2) = clock b + d \<and>
          clock b + 2000 \<in> set (timers (snd sb2)) \<and>
          clock b + d + 2000 \<in> set (timers (snd sb2)) \<and>
          (\<forall>e. 2000 \<le> d + e \<longrightarrow> copiedId (fst (elapse e sb2)) = None) \<and>
          (\<forall>e. d + e < 2000 \<and> timers b = [] \<longrightarrow> copiedId (fst (elapse e sb2)) = Some pid2))"
  using assms
  by (auto simp: handleCopyClick_primary_ok copyButton_onClick_tsx_def elapse_def Let_def)

theorem copy_marker_and_resets_witness:
  "(1000::nat) < 2000 \<and>
   copiedId (fst (handleCopyClick (ClipboardPresent (Resolved ())) ''x'' 5
      (elapse 1000 (handleCopyClick (ClipboardPresent (Resolved ())) ''hello'' 3 (st0, br0)))))
     = Some 5 \<and>
   copiedId (fst (elapse 1000 (handleCopyClick (ClipboardPresent (Resolved ())) ''x'' 5
      (elapse 1000 (handleCopyClick (ClipboardPresent (Resolved ())) ''hello'' 3 (st0, br0))))))
     = None \<and>
   copiedId (fst (elapse 999 (handleCopyClick (ClipboardPresent (Resolved ())) ''x'' 5
      (elapse 1000 (handleCopyClick (ClipboardPresent (Resolved ())) ''hello'' 3 (st0, br0))))))
     = Some 5"
proof -
  define sb2 where "sb2 = handleCopyClick (ClipboardPresent (Resolved ())) ''x'' 5
      (elapse 1000 (handleCopyClick (ClipboardPresent (Resolved ())) ''hello'' 3 (st0, br0)))"
  have h: "(1000::nat) < 2000" by simp
  have t: "timers br0 = []" by (simp add: br0_def)
  note r = copy_marker_and_resets [OF h, of "''hello''" 3 st0 br0 "''x''" 5,
      unfolded Let_def, folded sb2_def]
  from r have m: "copiedId (fst sb2) = Some 5" by blast
  from r have "\<forall>e. 2000 \<le> 1000 + e \<longrightarrow> copiedId (fst (elapse e sb2)) = None" by blast
  then have early: "copiedId (fst (elapse 1000 sb2)) = None" by simp
  from r have "\<forall>e. 1000 + e < 2000 \<and> timers br0 = [] \<longrightarrow> copiedId (fst (elapse e sb2)) = Some 5"
    by blast
  with t have still: "copiedId (fst (elapse 999 sb2)) = Some 5" by simp
  from h m early still show ?thesis unfolding sb2_def by blast
qed

text \<open>Removing the node that was just appended gives back the children there were.\<close>

lemma removeChild_appended:
  assumes "list_all (\<lambda>node. fst node < n) kids"
  shows "removeChild n (kids @ [(n, text)]) = Some kids"
proof -
  from assms have "filter (\<lambda>node. fst node \<noteq> n) kids = kids"
    by (induction kids) auto
  then show ?thesis by (simp add: removeChild_def)
qed

text \<open>
  C8. Without \<^verbatim>\<open>navigator.clipboard\<close> the handler appends a text holder to the
  body and removes it again: whether \<^verbatim>\<open>execCommand\<close> returns true, returns false
  or throws, the children of the body are afterwards the ones before. The marker is
  set only when \<^verbatim>\<open>execCommand\<close> returns true; when it returns false or throws,
  and when the write of a present clipboard rejects, the component state is untouched,
  so no record gets marked.
\<close>

theorem legacy_copy_releases_holder:
  "body_wf b \<Longrightarrow>
     body (snd (handleCopyClick (ClipboardMissing ex) text promptId (s, b))) = body b \<and>
     copiedId (fst (handleCopyClick (ClipboardMissing (ExecReturns True)) text promptId (s, b)))
       = Some promptId \<and>
     fst (handleCopyClick (ClipboardMissing (ExecReturns False)) text promptId (s, b)) = s \<and>
     fst (handleCopyClick (ClipboardMissing (ExecThrows err)) text promptId (s, b)) = s \<and>
     fst (handleCopyClick (ClipboardPresent (Rejected err)) text promptId (s, b)) = s"
  by (cases ex) (simp_all add: handleCopyClick_def body_wf_def Let_def removeChild_appended)

theorem legacy_copy_releases_holder_witness:
  "body_wf br0 \<and>
   body (snd (handleCopyClick (ClipboardMissing (ExecThrows NonError)) ''hello'' 3 (st0, br0)))
     = [(0, ''root'')] \<and>
   copiedId (fst (handleCopyClick (ClipboardMissing (ExecReturns False)) ''hello'' 3 (st0, br0)))
     = None"
proof -
  have h: "body_wf br0" by (simp add: body_wf_def br0_def)
  have b: "body br0 = [(0, ''root'')]" by (simp add: br0_def)
  have c: "copiedId st0 = None" by (simp add: st0_def)
  show ?thesis
    using h legacy_copy_releases_holder [OF h, of "ExecThrows NonError" "''hello''" 3 st0 NonError]
    by (simp add: b c)
qed

section \<open>The two files compared\<close>

text \<open>
  The state of \<^verbatim>\<open>prompts-grid.tsx\<close> is the state of \<^verbatim>\<open>part_000\<close> without the
  cells of the delete flow and of the hover effect: \<open>grid_state_tsx.truncate\<close> forgets
  them.
\<close>

lemma truncate_resetAndCloseForm:
  "grid_state_tsx.truncate (resetAndCloseForm s) = resetAndCloseForm_tsx (grid_state_tsx.truncate s)"
  by (simp add: resetAndCloseForm_def resetAndCloseForm_tsx_def grid_state_tsx.truncate_def)

lemma truncate_handleEditClick:
  "grid_state_tsx.truncate (handleEditClick p s) = handleEditClick_tsx p (grid_state_tsx.truncate s)"
  by (simp add: handleEditClick_def handleEditClick_tsx_def grid_state_tsx.truncate_def)

lemma truncate_handleSubmit_begin:
  "apfst grid_state_tsx.truncate (handleSubmit_begin s)
     = handleSubmit_begin_tsx (grid_state_tsx.truncate s)"
  by (simp add: handleSubmit_begin_def handleSubmit_begin_tsx_def grid_state_tsx.truncate_def
      split: option.splits)

lemma truncate_handleSubmit_settle:
  "grid_state_tsx.truncate (handleSubmit_settle c r s)
     = handleSubmit_settle_tsx c r (grid_state_tsx.truncate s)"
  by (cases r; cases c)
    (simp_all add: handleSubmit_settle_def handleSubmit_settle_tsx_def resetAndCloseForm_def
      resetAndCloseForm_tsx_def grid_state_tsx.truncate_def)

lemma truncate_handleSubmit:
  "grid_state_tsx.truncate (handleSubmit r s) = handleSubmit_tsx r (grid_state_tsx.truncate s)"
  using truncate_handleSubmit_begin [of s]
  by (auto simp: handleSubmit_def handleSubmit_tsx_def truncate_handleSubmit_settle
      split: prod.splits)

lemma truncate_onOpenChange:
  "grid_state_tsx.truncate (onOpenChange opn s) = onOpenChange_tsx opn (grid_state_tsx.truncate s)"
  by (simp add: onOpenChange_def onOpenChange_tsx_def truncate_resetAndCloseForm)
    (simp add: grid_state_tsx.truncate_def)

lemma truncate_createButton_onClick:
  "grid_state_tsx.truncate (createButton_onClick s)
     = createButton_onClick_tsx (grid_state_tsx.truncate s)"
  by (simp add: createButton_onClick_def createButton_onClick_tsx_def resetAndCloseForm_def
      resetAndCloseForm_tsx_def grid_state_tsx.truncate_def)

lemma truncate_flags:
  "onInteractOutside s = onInteractOutside_tsx (grid_state_tsx.truncate s)"
  "cancelButton_disabled s = cancelButton_disabled_tsx (grid_state_tsx.truncate s)"
  "submitButton_disabled s = submitButton_disabled_tsx (grid_state_tsx.truncate s)"
  by (simp_all add: onInteractOutside_def onInteractOutside_tsx_def cancelButton_disabled_def
      cancelButton_disabled_tsx_def submitButton_disabled_def submitButton_disabled_tsx_def
      grid_state_tsx.truncate_def)

lemma handleInputChange_same: "handleInputChange f v fd = handleInputChange_tsx f v fd"
  by (cases f) simp_all

lemma copy_agrees_when_write_resolves:
  "grid_state_tsx.truncate
     (fst (handleCopyClick (ClipboardPresent (Resolved u)) (content p) (ident p) (s, b)))
     = fst (copyButton_onClick_tsx (ClipboardPresent (Resolved u)) p (grid_state_tsx.truncate s, b)) \<and>
   timers (snd (handleCopyClick (ClipboardPresent (Resolved u)) (content p) (ident p) (s, b)))
     = timers (snd (copyButton_onClick_tsx (ClipboardPresent (Resolved u)) p
         (grid_state_tsx.truncate s, b)))"
  by (simp add: handleCopyClick_def copyButton_onClick_tsx_def grid_state_tsx.truncate_def)

text \<open>
  C9 says that the copy behaviours of the two files coincide. They do not: when the
  clipboard write rejects, \<^verbatim>\<open>handleCopyClick\<close> of \<^verbatim>\<open>part_000\<close> leaves the marker
  absent, while the inline handler of \<^verbatim>\<open>prompts-grid.tsx\<close>, which does not await
  the write, has set the marker to the record.
\<close>

theorem copy_behaviours_differ_counterexample:
  "copiedId (fst (handleCopyClick (ClipboardPresent (Rejected NonError)) (content p3) (ident p3)
      (st0, br0))) = None \<and>
   copiedId (fst (copyButton_onClick_tsx (ClipboardPresent (Rejected NonError)) p3
      (grid_state_tsx.truncate st0, br0))) = Some 3 \<and>
   grid_state_tsx.truncate (fst (handleCopyClick (ClipboardPresent (Rejected NonError))
      (content p3) (ident p3) (st0, br0)))
     \<noteq> fst (copyButton_onClick_tsx (ClipboardPresent (Rejected NonError)) p3
          (grid_state_tsx.truncate st0, br0))"
proof -
  have a: "copiedId (fst (handleCopyClick (ClipboardPresent (Rejected NonError)) (content p3)
      (ident p3) (st0, br0))) = None"
    by (simp add: handleCopyClick_def st0_def)
  have b: "copiedId (fst (copyButton_onClick_tsx (ClipboardPresent (Rejected NonError)) p3
      (grid_state_tsx.truncate st0, br0))) = Some 3"
    by (simp add: copyButton_onClick_tsx_def p3_def)
  have "copiedId (grid_state_tsx.truncate (fst (handleCopyClick
      (ClipboardPresent (Rejected NonError)) (content p3) (ident p3) (st0, br0)))) = None"
    using a by (simp add: grid_state_tsx.truncate_def)
  with b have "grid_state_tsx.truncate (fst (handleCopyClick (ClipboardPresent (Rejected NonError))
      (content p3) (ident p3) (st0, br0)))
     \<noteq> fst (copyButton_onClick_tsx (ClipboardPresent (Rejected NonError)) p3
          (grid_state_tsx.truncate st0, br0))"
    by force
  with a b show ?thesis by blast
qed

text \<open>
  C9, amended. On the cells the two files share, the two files do the same when the
  form is opened for an edit or for a create, when a field changes, when a submit
  starts and when it settles (with any outcome), and when the form is reset and closed;
  the Cancel and submit buttons are disabled and the outside dismissal is prevented in
  the same states; and the Delete button of \<^verbatim>\<open>prompts-grid.tsx\<close> changes nothing.
  A copy does the same to the marker and to the pending resets in both files when the
  clipboard write resolves.
\<close>

theorem files_agree_on_form:
  "grid_state_tsx.truncate (handleEditClick p s) = handleEditClick_tsx p (grid_state_tsx.truncate s) \<and>
   grid_state_tsx.truncate (createButton_onClick s)
     = createButton_onClick_tsx (grid_state_tsx.truncate s) \<and>
   handleInputChange f v fd = handleInputChange_tsx f v fd \<and>
   apfst grid_state_tsx.truncate (handleSubmit_begin s)
     = handleSubmit_begin_tsx (grid_state_tsx.truncate s) \<and>
   grid_state_tsx.truncate (handleSubmit_settle c r s)
     = handleSubmit_settle_tsx c r (grid_state_tsx.truncate s) \<and>
   grid_state_tsx.truncate (handleSubmit r s) = handleSubmit_tsx r (grid_state_tsx.truncate s) \<and>
   grid_state_tsx.truncate (resetAndCloseForm s) = resetAndCloseForm_tsx (grid_state_tsx.truncate s) \<and>
   grid_state_tsx.truncate (onOpenChange opn s) = onOpenChange_tsx opn (grid_state_tsx.truncate s) \<and>
   onInteractOutside s = onInteractOutside_tsx (grid_state_tsx.truncate s) \<and>
   cancelButton_disabled s = cancelButton_disabled_tsx (grid_state_tsx.truncate s) \<and>
   submitButton_disabled s = submitButton_disabled_tsx (grid_state_tsx.truncate s) \<and>
   deleteButton_onClick_tsx promptId t = t \<and>
   grid_state_tsx.truncate
     (fst (handleCopyClick (ClipboardPresent (Resolved u)) (content p) (ident p) (s, b)))
     = fst (copyButton_onClick_tsx (ClipboardPresent (Resolved u)) p (grid_state_tsx.truncate s, b)) \<and>
   timers (snd (handleCopyClick (ClipboardPresent (Resolved u)) (content p) (ident p) (s, b)))
     = timers (snd (copyButton_onClick_tsx (ClipboardPresent (Resolved u)) p
         (grid_state_tsx.truncate s, b)))"
  by (simp only: truncate_handleEditClick truncate_createButton_onClick handleInputChange_same
      truncate_handleSubmit_begin truncate_handleSubmit_settle truncate_handleSubmit
      truncate_resetAndCloseForm truncate_onOpenChange truncate_flags
      deleteButton_onClick_tsx_def copy_agrees_when_write_resolves simp_thms)

end
